theory Spec2Isabelle
  imports Complex_Main
begin

section \<open>Exceptions and sequential callback dispatch\<close>

text \<open>
  The Python exceptions that the modelled code can raise.  Floating-point values of the
  source (losses, learning rates) are idealised as \<^typ>\<open>real\<close>; Python integers
  are \<^typ>\<open>int\<close> or \<^typ>\<open>nat\<close>.
\<close>

datatype error =
    KeyboardInterrupt
  | ZeroDivisionError
  | AttributeError
  | AssertionError
  | IndexError
  | TypeError
  | FileNotFoundError
  | OtherError string

text \<open>
  A method that mutates objects is a function from the state before to an optional raised
  exception and the state after: mutations made before a \<^verbatim>\<open>raise\<close> persist, as
  they do on Python objects.
\<close>

type_synonym 's hook = "'s \<Rightarrow> error option \<times> 's"

text \<open>\<^verbatim>\<open>for cb in self.callbacks: cb.on_xxx(...)\<close>: in list order, stopping at the first
  exception.\<close>

fun run_hooks :: "'s hook list \<Rightarrow> 's hook" where
  "run_hooks [] s = (None, s)"
| "run_hooks (h # hs) s =
     (case h s of
        (Some e, s') \<Rightarrow> (Some e, s')
      | (None, s') \<Rightarrow> run_hooks hs s')"

text \<open>\<^verbatim>\<open>xs[-1]\<close> raises \<^verbatim>\<open>IndexError\<close> on an empty list.\<close>

definition py_last :: "'a list \<Rightarrow> error + 'a" where
  "py_last xs = (if xs = [] then Inl IndexError else Inr (last xs))"

text \<open>\<^verbatim>\<open>a / b\<close> raises \<^verbatim>\<open>ZeroDivisionError\<close> when \<^verbatim>\<open>b\<close> is zero.\<close>

definition py_div :: "real \<Rightarrow> real \<Rightarrow> error + real" where
  "py_div a b = (if b = 0 then Inl ZeroDivisionError else Inr (a / b))"

section \<open>SGDRestarts: cosine annealing with warm restarts\<close>

text \<open>An optimizer parameter group: the keys \<^verbatim>\<open>'lr'\<close> and \<^verbatim>\<open>'initial_lr'\<close>.\<close>

record param_group =
  lr :: real
  initial_lr :: real

text \<open>
  The attributes of an \<^verbatim>\<open>SGDRestarts\<close> object.  \<open>n_batches_arg\<close> is
  \<^verbatim>\<open>self._n_batches\<close>, \<open>sched_last_epoch\<close> is \<^verbatim>\<open>self.last_epoch\<close>.  The
  \<^verbatim>\<open>verbose\<close> flag only prints and is left out.
\<close>

record SGDRestarts =
  eta_min :: real
  To :: int
  Ti :: int
  Tmul :: int
  restarts :: nat
  Tcur :: int
  n_batches_arg :: "int option"
  sched_last_epoch :: int
  history :: "real list"


text \<open>
  The property \<^verbatim>\<open>n_batches\<close>: the constructor argument when given, else the
  trainer's \<^verbatim>\<open>n_batches\<close> attribute, which exists only once \<^verbatim>\<open>fit_loader\<close> has
  set it.
\<close>

definition sg_n_batches :: "SGDRestarts \<Rightarrow> int option \<Rightarrow> error + int" where
  "sg_n_batches sg trainer_n_batches =
     (case n_batches_arg sg of
        Some n \<Rightarrow> Inr n
      | None \<Rightarrow> (case trainer_n_batches of Some n \<Rightarrow> Inr n | None \<Rightarrow> Inl AttributeError))"

text \<open>
  \<^verbatim>\<open>get_lr(self, lr, cepoch, cbatch)\<close> has three parts, modelled one by one.
  First the epoch bookkeeping: on the first call ever (\<^verbatim>\<open>last_epoch == -1\<close>) the
  epoch is recorded; on the first call of a later epoch the epoch is recorded and
  \<^verbatim>\<open>Tcur\<close> ("epochs performed since last restart") is incremented.
\<close>

definition sg_epoch_update :: "int \<Rightarrow> SGDRestarts \<Rightarrow> SGDRestarts" where
  "sg_epoch_update cepoch sg =
     (if sched_last_epoch sg = - 1 then sg\<lparr>sched_last_epoch := cepoch\<rparr>
      else if cepoch > sched_last_epoch sg
        then sg\<lparr>sched_last_epoch := cepoch, Tcur := Tcur sg + 1\<rparr>
      else sg)"

text \<open>Second the restart: \<^verbatim>\<open>if self.Tcur == self.Ti: ...\<close>.\<close>

definition sg_restart_update :: "SGDRestarts \<Rightarrow> SGDRestarts" where
  "sg_restart_update sg =
     (if Tcur sg = Ti sg
      then sg\<lparr>Tcur := 0, restarts := restarts sg + 1,
              Ti := To sg * (Tmul sg ^ (restarts sg + 1))\<rparr>
      else sg)"

text \<open>
  Third the rate.  \<^verbatim>\<open>step = Ti / max(1, Ti * n_batches - 1)\<close>,
  \<^verbatim>\<open>x = step * (Tcur * n_batches + cbatch)\<close>, and the returned value
  \<^verbatim>\<open>eta_min + (lr - eta_min) * (1 + cos(x * pi / Ti)) / 2\<close>.  The divisions are float
  divisions: the first divisor is at least 1, the second is \<^verbatim>\<open>self.Ti\<close>.
\<close>

definition sg_cosine :: "real \<Rightarrow> int \<Rightarrow> int \<Rightarrow> SGDRestarts \<Rightarrow> real" where
  "sg_cosine base_lr cbatch nb sg =
     (let step = real_of_int (Ti sg) / real_of_int (max 1 (Ti sg * nb - 1));
          x = step * real_of_int (Tcur sg * nb + cbatch)
      in eta_min sg + (base_lr - eta_min sg)
           * (1 + cos (x * pi / real_of_int (Ti sg))) / 2)"

definition sg_rate :: "real \<Rightarrow> int \<Rightarrow> int \<Rightarrow> SGDRestarts \<Rightarrow> error + real" where
  "sg_rate base_lr cbatch nb sg =
     (if Ti sg = 0 then Inl ZeroDivisionError else Inr (sg_cosine base_lr cbatch nb sg))"

definition get_lr ::
  "real \<Rightarrow> int \<Rightarrow> int \<Rightarrow> int option \<Rightarrow> SGDRestarts \<Rightarrow> (error + real) \<times> SGDRestarts" where
  "get_lr base_lr cepoch cbatch trainer_n_batches sg =
     (let sg2 = sg_restart_update (sg_epoch_update cepoch sg)
      in case sg_n_batches sg2 trainer_n_batches of
           Inl e \<Rightarrow> (Inl e, sg2)
         | Inr nb \<Rightarrow> (sg_rate base_lr cbatch nb sg2, sg2))"

text \<open>
  The loop of \<^verbatim>\<open>step\<close> over \<^verbatim>\<open>self.optimizer.param_groups\<close>: each group's
  \<^verbatim>\<open>'lr'\<close> is assigned \<^verbatim>\<open>get_lr(group['initial_lr'], epoch, batch)\<close>, and every
  call goes through the scheduler update again.
\<close>

fun sg_step_groups ::
  "int \<Rightarrow> int \<Rightarrow> int option \<Rightarrow> param_group list \<Rightarrow> SGDRestarts
     \<Rightarrow> error option \<times> param_group list \<times> SGDRestarts" where
  "sg_step_groups epoch batch tnb [] sg = (None, [], sg)"
| "sg_step_groups epoch batch tnb (g # gs) sg =
     (case get_lr (initial_lr g) epoch batch tnb sg of
        (Inl e, sg') \<Rightarrow> (Some e, g # gs, sg')
      | (Inr v, sg') \<Rightarrow>
          (case sg_step_groups epoch batch tnb gs sg' of
             (r, gs', sg'') \<Rightarrow> (r, g\<lparr>lr := v\<rparr> # gs', sg'')))"

text \<open>
  \<^verbatim>\<open>step(self, epoch, batch=None)\<close> on the pair of the optimizer's parameter groups
  and the scheduler.
\<close>

definition sg_step ::
  "int option \<Rightarrow> int option \<Rightarrow> int option \<Rightarrow> (param_group list \<times> SGDRestarts) hook" where
  "sg_step epoch batch tnb s =
     (case batch of
        None \<Rightarrow> (None, s)
      | Some b \<Rightarrow>
          (let (gs, sg) = s;
               ep = (case epoch of None \<Rightarrow> sched_last_epoch sg + 1 | Some ep' \<Rightarrow> ep')
           in case sg_step_groups ep b tnb gs sg of
                (Some e, gs', sg') \<Rightarrow> (Some e, (gs', sg'))
              | (None, gs', sg') \<Rightarrow> (None, (gs', sg'\<lparr>sched_last_epoch := ep\<rparr>))))"

text \<open>\<^verbatim>\<open>on_train_begin\<close>: \<^verbatim>\<open>self.last_epoch = self.trainer.last_epoch\<close>.\<close>

definition sg_on_train_begin :: "nat \<Rightarrow> (param_group list \<times> SGDRestarts) hook" where
  "sg_on_train_begin trainer_last_epoch s =
     (None, (fst s, (snd s)\<lparr>sched_last_epoch := int trainer_last_epoch\<rparr>))"

text \<open>
  \<^verbatim>\<open>on_batch_begin(self, cepoch, cbatch, *args)\<close>: record the first group's current
  rate, then \<^verbatim>\<open>self.step(cepoch, cbatch)\<close>.
\<close>

definition sg_on_batch_begin ::
  "int \<Rightarrow> int \<Rightarrow> int option \<Rightarrow> (param_group list \<times> SGDRestarts) hook" where
  "sg_on_batch_begin cepoch cbatch tnb s =
     (case fst s of
        [] \<Rightarrow> (Some IndexError, s)
      | g # gs \<Rightarrow>
          sg_step (Some cepoch) (Some cbatch) tnb
            (fst s, (snd s)\<lparr>history := history (snd s) @ [lr g]\<rparr>))"

section \<open>The trainer and its collaborators\<close>

text \<open>
  \<^verbatim>\<open>self.metrics\<close>: the \<^verbatim>\<open>'losses'\<close> lists of the two phases (training losses
  are floats, validation losses are floats or \<^verbatim>\<open>None\<close>) and whatever other metrics
  callbacks register under the two phases.
\<close>

record metrics =
  train_losses :: "real list"
  valid_losses :: "real option list"
  train_other :: "(string \<times> real list) list"
  valid_other :: "(string \<times> real list) list"

text \<open>The model: its parameters (what \<^verbatim>\<open>state_dict()\<close> holds) and its mode flag.\<close>

record 'p net =
  params :: 'p
  training :: bool

text \<open>
  An attached learning-rate scheduler is an external object; the model keeps its class
  name, its \<^verbatim>\<open>last_epoch\<close> attribute, and the arguments of the calls to
  \<^verbatim>\<open>step\<close> in call order (\<open>None\<close> for a call without argument).
\<close>

record scheduler =
  class_name :: string
  step_calls :: "real option list"
  last_epoch_attr :: int

text \<open>
  The attributes of a \<^verbatim>\<open>DeepNetTrainer\<close>, the files its methods read and write, and
  (\<open>ext\<close>) the state owned by the optimizer and the callbacks.  \<open>valid_loss\<close> is
  \<open>None\<close> while the attribute does not exist, \<open>Some None\<close> when it holds \<^verbatim>\<open>None\<close>.
  \<open>write_log\<close> lists the files written, in order.
\<close>

record ('p, 'x) trainer =
  model :: "'p net"
  scheduler :: "scheduler option"
  metrics :: metrics
  last_epoch :: nat
  has_validation :: bool
  n_batches :: "nat option"
  train_loss :: "real option"
  valid_loss :: "real option option"
  model_files :: "string \<Rightarrow> 'p option"
  histo_files :: "string \<Rightarrow> metrics option"
  write_log :: "string list"
  ext :: 'x

text \<open>
  \<^verbatim>\<open>DeepNetTrainer.__init__\<close> for a given model, in a world without files:
  empty loss histories, \<^verbatim>\<open>last_epoch = 0\<close>; \<^verbatim>\<open>n_batches\<close>, \<^verbatim>\<open>train_loss\<close> and
  \<^verbatim>\<open>valid_loss\<close> are not created.
\<close>

definition DeepNetTrainer_init :: "'p net \<Rightarrow> scheduler option \<Rightarrow> 'x \<Rightarrow> ('p, 'x) trainer" where
  "DeepNetTrainer_init m lr_scheduler x =
     \<lparr> model = m, scheduler = lr_scheduler,
       metrics = \<lparr> train_losses = [], valid_losses = [], train_other = [], valid_other = [] \<rparr>,
       last_epoch = 0, has_validation = False, n_batches = None, train_loss = None,
       valid_loss = None, model_files = (\<lambda>f. None), histo_files = (\<lambda>f. None),
       write_log = [], ext = x \<rparr>"

text \<open>
  The callback protocol: eight hooks.  The \<^verbatim>\<open>metrics\<close> argument of the source is
  \<^verbatim>\<open>self.metrics\<close> itself, which a hook reads from the trainer.
\<close>

record ('p, 'x, 'b, 'y) callback =
  on_train_begin :: "nat \<Rightarrow> ('p, 'x) trainer hook"
  on_train_end :: "nat \<Rightarrow> ('p, 'x) trainer hook"
  on_epoch_begin :: "nat \<Rightarrow> ('p, 'x) trainer hook"
  on_epoch_end :: "nat \<Rightarrow> ('p, 'x) trainer hook"
  on_batch_begin :: "nat \<Rightarrow> nat \<Rightarrow> nat \<Rightarrow> ('p, 'x) trainer hook"
  on_batch_end :: "nat \<Rightarrow> nat \<Rightarrow> 'b \<Rightarrow> 'y \<Rightarrow> real \<Rightarrow> ('p, 'x) trainer hook"
  on_vbatch_begin :: "nat \<Rightarrow> nat \<Rightarrow> nat \<Rightarrow> ('p, 'x) trainer hook"
  on_vbatch_end :: "nat \<Rightarrow> nat \<Rightarrow> 'b \<Rightarrow> 'y \<Rightarrow> real option \<Rightarrow> ('p, 'x) trainer hook"

text \<open>The base class \<^verbatim>\<open>Callback\<close>: every hook is \<^verbatim>\<open>pass\<close>.\<close>

definition Callback :: "('p, 'x, 'b, 'y) callback" where
  "Callback =
     \<lparr> on_train_begin = (\<lambda>n t. (None, t)), on_train_end = (\<lambda>n t. (None, t)),
       on_epoch_begin = (\<lambda>ep t. (None, t)), on_epoch_end = (\<lambda>ep t. (None, t)),
       on_batch_begin = (\<lambda>ep i mb t. (None, t)),
       on_batch_end = (\<lambda>ep i b y l t. (None, t)),
       on_vbatch_begin = (\<lambda>ep i mb t. (None, t)),
       on_vbatch_end = (\<lambda>ep i b y l t. (None, t)) \<rparr>"

text \<open>
  The external collaborators of the batch loops.  \<open>mb_size\<close> is \<^verbatim>\<open>X.size(0)\<close>;
  \<open>do_optimize\<close> is \<^verbatim>\<open>_do_optimize\<close> (zero the gradients, forward, loss, backward,
  optimizer step): it may raise, and it changes the model parameters and the optimizer
  state; \<open>do_evaluate\<close> is \<^verbatim>\<open>_do_evaluate\<close>, whose loss may be \<^verbatim>\<open>None\<close>;
  \<open>size_average\<close> is \<^verbatim>\<open>hasattr(criterion, 'size_average') and
  criterion.size_average\<close>.  Device transfers do not change values and are left out.
\<close>

record ('p, 'x, 'b, 'y) env =
  mb_size :: "'b \<Rightarrow> nat"
  do_optimize :: "'b \<Rightarrow> 'p net \<Rightarrow> 'x \<Rightarrow> (error + 'y \<times> real) \<times> 'p \<times> 'x"
  do_evaluate :: "'b \<Rightarrow> 'p net \<Rightarrow> error + 'y \<times> real option"
  size_average :: bool

text \<open>A data loader: the batches one iteration yields, \<^verbatim>\<open>len(loader.dataset)\<close> and
  \<^verbatim>\<open>loader.batch_size\<close>.\<close>

record 'b loader =
  batches :: "'b list"
  dataset_len :: nat
  batch_size :: nat

text \<open>
  The training minibatch loop of \<^verbatim>\<open>fit_loader\<close>, from batch index \<open>i\<close> on, with the
  accumulators \<^verbatim>\<open>epo_samples\<close> and \<^verbatim>\<open>epo_loss\<close> (\<^verbatim>\<open>epo_batches\<close> is never read
  and is left out).
\<close>

fun train_batches ::
  "('p, 'x, 'b, 'y) env \<Rightarrow> ('p, 'x, 'b, 'y) callback list \<Rightarrow> nat \<Rightarrow> nat \<Rightarrow> 'b list
     \<Rightarrow> nat \<times> real \<Rightarrow> ('p, 'x) trainer \<Rightarrow> (error + nat \<times> real) \<times> ('p, 'x) trainer" where
  "train_batches E cbs curr_epoch i [] acc t = (Inr acc, t)"
| "train_batches E cbs curr_epoch i (b # bs) acc t =
     (case run_hooks (map (\<lambda>cb. on_batch_begin cb curr_epoch i (mb_size E b)) cbs) t of
        (Some e, t1) \<Rightarrow> (Inl e, t1)
      | (None, t1) \<Rightarrow>
          (case do_optimize E b (model t1) (ext t1) of
             (r, p', x') \<Rightarrow>
               (case r of
                  Inl e \<Rightarrow> (Inl e, t1\<lparr>model := (model t1)\<lparr>params := p'\<rparr>, ext := x'\<rparr>)
                | Inr (Ypred, vloss) \<Rightarrow>
                    (case run_hooks (map (\<lambda>cb. on_batch_end cb curr_epoch i b Ypred vloss) cbs)
                            (t1\<lparr>model := (model t1)\<lparr>params := p'\<rparr>, ext := x'\<rparr>) of
                       (Some e, t3) \<Rightarrow> (Inl e, t3)
                     | (None, t3) \<Rightarrow>
                         train_batches E cbs curr_epoch (i + 1) bs
                           (fst acc + mb_size E b,
                            (if size_average E then snd acc + real (mb_size E b) * vloss
                             else snd acc + vloss))
                           t3))))"

text \<open>
  The validation minibatch loop.  \<^verbatim>\<open>epo_loss\<close> becomes \<^verbatim>\<open>None\<close> when a loss is
  \<^verbatim>\<open>None\<close>, and adding a float to \<^verbatim>\<open>None\<close> afterwards is a \<^verbatim>\<open>TypeError\<close>.
\<close>

fun valid_batches ::
  "('p, 'x, 'b, 'y) env \<Rightarrow> ('p, 'x, 'b, 'y) callback list \<Rightarrow> nat \<Rightarrow> nat \<Rightarrow> 'b list
     \<Rightarrow> nat \<times> real option \<Rightarrow> ('p, 'x) trainer
     \<Rightarrow> (error + nat \<times> real option) \<times> ('p, 'x) trainer" where
  "valid_batches E cbs curr_epoch i [] acc t = (Inr acc, t)"
| "valid_batches E cbs curr_epoch i (b # bs) acc t =
     (case run_hooks (map (\<lambda>cb. on_vbatch_begin cb curr_epoch i (mb_size E b)) cbs) t of
        (Some e, t1) \<Rightarrow> (Inl e, t1)
      | (None, t1) \<Rightarrow>
          (case do_evaluate E b (model t1) of
             Inl e \<Rightarrow> (Inl e, t1)
           | Inr (Ypred, loss) \<Rightarrow>
               (case (case loss of
                        None \<Rightarrow> Inr None
                      | Some vloss \<Rightarrow>
                          (case snd acc of
                             None \<Rightarrow> Inl TypeError
                           | Some a \<Rightarrow>
                               Inr (Some (if size_average E
                                          then a + vloss * real (mb_size E b)
                                          else a + vloss)))) of
                  Inl e \<Rightarrow> (Inl e, t1)
                | Inr epo_loss \<Rightarrow>
                    (case run_hooks (map (\<lambda>cb. on_vbatch_end cb curr_epoch i b Ypred loss) cbs) t1 of
                       (Some e, t2) \<Rightarrow> (Inl e, t2)
                     | (None, t2) \<Rightarrow>
                         valid_batches E cbs curr_epoch (i + 1) bs
                           (fst acc + mb_size E b, epo_loss) t2))))"

text \<open>
  The validation phase of one epoch: with validation data the model is put in evaluation
  mode, the loop runs, and \<^verbatim>\<open>self.valid_loss\<close> is set and appended; without, only a
  \<^verbatim>\<open>None\<close> placeholder is appended and \<^verbatim>\<open>self.valid_loss\<close> is not touched.
\<close>

definition validation_phase ::
  "('p, 'x, 'b, 'y) env \<Rightarrow> ('p, 'x, 'b, 'y) callback list \<Rightarrow> 'b loader option \<Rightarrow> nat
     \<Rightarrow> ('p, 'x) trainer hook" where
  "validation_phase E cbs valid_data curr_epoch t =
     (if has_validation t then
        (case valid_data of
           None \<Rightarrow> (Some TypeError, t\<lparr>model := (model t)\<lparr>training := False\<rparr>\<rparr>)
         | Some vd \<Rightarrow>
             (case valid_batches E cbs curr_epoch 0 (batches vd) (0, Some 0)
                     (t\<lparr>model := (model t)\<lparr>training := False\<rparr>\<rparr>) of
                (Inl e, t1) \<Rightarrow> (Some e, t1)
              | (Inr (epo_samples, epo_loss), t1) \<Rightarrow>
                  (case (case epo_loss of
                           None \<Rightarrow> Inr None
                         | Some a \<Rightarrow> map_sum id Some (py_div a (real epo_samples))) of
                     Inl e \<Rightarrow> (Some e, t1)
                   | Inr vl \<Rightarrow>
                       (None, t1\<lparr>valid_loss := Some vl,
                                 metrics := (metrics t1)
                                   \<lparr>valid_losses := valid_losses (metrics t1) @ [vl]\<rparr>\<rparr>))))
      else (None, t\<lparr>metrics := (metrics t)
                        \<lparr>valid_losses := valid_losses (metrics t) @ [None]\<rparr>\<rparr>))"

text \<open>
  The scheduler step that ends an epoch.  Python evaluates
  \<^verbatim>\<open>self.valid_loss is not None\<close> only for a \<^verbatim>\<open>ReduceLROnPlateau\<close>, and reading an
  attribute that does not exist raises \<^verbatim>\<open>AttributeError\<close>.
\<close>

definition scheduler_step :: "('p, 'x) trainer hook" where
  "scheduler_step t =
     (case scheduler t of
        None \<Rightarrow> (None, t)
      | Some sch \<Rightarrow>
          (if class_name sch = ''ReduceLROnPlateau'' then
             (case valid_loss t of
                None \<Rightarrow> (Some AttributeError, t)
              | Some None \<Rightarrow>
                  (None, t\<lparr>scheduler := Some (sch\<lparr>step_calls := step_calls sch @ [None]\<rparr>)\<rparr>)
              | Some (Some v) \<Rightarrow>
                  (None, t\<lparr>scheduler := Some (sch\<lparr>step_calls := step_calls sch @ [Some v]\<rparr>)\<rparr>))
           else (None, t\<lparr>scheduler := Some (sch\<lparr>step_calls := step_calls sch @ [None]\<rparr>)\<rparr>)))"

text \<open>The body of the epoch loop of \<^verbatim>\<open>fit_loader\<close> for one \<^verbatim>\<open>curr_epoch\<close>.\<close>

definition fit_epoch ::
  "('p, 'x, 'b, 'y) env \<Rightarrow> ('p, 'x, 'b, 'y) callback list \<Rightarrow> 'b loader \<Rightarrow> 'b loader option
     \<Rightarrow> nat \<Rightarrow> ('p, 'x) trainer hook" where
  "fit_epoch E cbs train_data valid_data curr_epoch t =
     (case run_hooks (map (\<lambda>cb. on_epoch_begin cb curr_epoch) cbs)
             (t\<lparr>model := (model t)\<lparr>training := True\<rparr>\<rparr>) of
        (Some e, t1) \<Rightarrow> (Some e, t1)
      | (None, t1) \<Rightarrow>
          (case train_batches E cbs curr_epoch 0 (batches train_data) (0, 0) t1 of
             (Inl e, t2) \<Rightarrow> (Some e, t2)
           | (Inr (epo_samples, epo_loss), t2) \<Rightarrow>
               (case py_div epo_loss (real epo_samples) of
                  Inl e \<Rightarrow> (Some e, t2)
                | Inr tloss \<Rightarrow>
                    (case validation_phase E cbs valid_data curr_epoch
                            (t2\<lparr>train_loss := Some tloss,
                                metrics := (metrics t2)
                                  \<lparr>train_losses := train_losses (metrics t2) @ [tloss]\<rparr>\<rparr>) of
                       (Some e, t4) \<Rightarrow> (Some e, t4)
                     | (None, t4) \<Rightarrow>
                         (case run_hooks (map (\<lambda>cb. on_epoch_end cb curr_epoch) cbs) t4 of
                            (Some e, t5) \<Rightarrow> (Some e, t5)
                          | (None, t5) \<Rightarrow> scheduler_step t5)))))"

text \<open>The epoch loop over the values of \<^verbatim>\<open>range(...)\<close>.\<close>

fun fit_epochs ::
  "('p, 'x, 'b, 'y) env \<Rightarrow> ('p, 'x, 'b, 'y) callback list \<Rightarrow> 'b loader \<Rightarrow> 'b loader option
     \<Rightarrow> nat list \<Rightarrow> ('p, 'x) trainer hook" where
  "fit_epochs E cbs train_data valid_data [] t = (None, t)"
| "fit_epochs E cbs train_data valid_data (curr_epoch # eps) t =
     (case fit_epoch E cbs train_data valid_data curr_epoch t of
        (Some e, t') \<Rightarrow> (Some e, t')
      | (None, t') \<Rightarrow> fit_epochs E cbs train_data valid_data eps t')"

text \<open>
  \<^verbatim>\<open>range(self.last_epoch + 1, self.last_epoch + n_epochs + 1)\<close>, evaluated once, when
  the epoch loop starts.
\<close>

definition epoch_range :: "('p, 'x) trainer \<Rightarrow> nat \<Rightarrow> nat list" where
  "epoch_range t n_epochs = [last_epoch t + 1..<last_epoch t + n_epochs + 1]"

text \<open>The \<^verbatim>\<open>try\<close> block of \<^verbatim>\<open>fit_loader\<close>.\<close>

definition fit_try ::
  "('p, 'x, 'b, 'y) env \<Rightarrow> ('p, 'x, 'b, 'y) callback list \<Rightarrow> nat \<Rightarrow> 'b loader
     \<Rightarrow> 'b loader option \<Rightarrow> ('p, 'x) trainer hook" where
  "fit_try E cbs n_epochs train_data valid_data t =
     (case run_hooks (map (\<lambda>cb. on_train_begin cb n_epochs) cbs) t of
        (Some e, t1) \<Rightarrow> (Some e, t1)
      | (None, t1) \<Rightarrow> fit_epochs E cbs train_data valid_data (epoch_range t1 n_epochs) t1)"

text \<open>
  The two assignments of \<^verbatim>\<open>fit_loader\<close> before its \<^verbatim>\<open>try\<close> block:
  \<^verbatim>\<open>self.has_validation = valid_data is not None\<close> and
  \<^verbatim>\<open>self.n_batches = int(np.ceil(len(train_data.dataset) / train_data.batch_size))\<close>,
  whose division can raise.
\<close>

definition fit_setup :: "'b loader \<Rightarrow> 'b loader option \<Rightarrow> ('p, 'x) trainer hook" where
  "fit_setup train_data valid_data t =
     (if batch_size train_data = 0
      then (Some ZeroDivisionError, t\<lparr>has_validation := (valid_data \<noteq> None)\<rparr>)
      else (None, t\<lparr>has_validation := (valid_data \<noteq> None),
                     n_batches := Some (nat \<lceil>real (dataset_len train_data)
                                               / real (batch_size train_data)\<rceil>)\<rparr>))"

text \<open>
  \<^verbatim>\<open>fit_loader(self, n_epochs, train_data, valid_data=None)\<close>: the assignments, the
  \<^verbatim>\<open>try\<close> block with its \<^verbatim>\<open>except KeyboardInterrupt: pass\<close>, and the
  \<^verbatim>\<open>on_train_end\<close> loop after it.
\<close>

definition fit_loader ::
  "('p, 'x, 'b, 'y) env \<Rightarrow> ('p, 'x, 'b, 'y) callback list \<Rightarrow> nat \<Rightarrow> 'b loader
     \<Rightarrow> 'b loader option \<Rightarrow> ('p, 'x) trainer hook" where
  "fit_loader E cbs n_epochs train_data valid_data t =
     (case fit_setup train_data valid_data t of
        (Some e, t1) \<Rightarrow> (Some e, t1)
      | (None, t1) \<Rightarrow>
          (case fit_try E cbs n_epochs train_data valid_data t1 of
             (Some e, t2) \<Rightarrow>
               (if e = KeyboardInterrupt
                then run_hooks (map (\<lambda>cb. on_train_end cb n_epochs) cbs) t2
                else (Some e, t2))
           | (None, t2) \<Rightarrow> run_hooks (map (\<lambda>cb. on_train_end cb n_epochs) cbs) t2))"

section \<open>Saving and restoring the trainer state\<close>

text \<open>
  \<^verbatim>\<open>save_trainer_state(file_basename, model, metrics)\<close>: the model parameters go to
  \<^verbatim>\<open>file_basename + '.model'\<close>, the metrics to \<^verbatim>\<open>file_basename + '.histo'\<close>.
\<close>

definition save_trainer_state ::
  "string \<Rightarrow> 'p net \<Rightarrow> metrics \<Rightarrow> ('p, 'x) trainer \<Rightarrow> ('p, 'x) trainer" where
  "save_trainer_state file_basename m ms t =
     t\<lparr>model_files := (model_files t)(file_basename @ ''.model'' \<mapsto> params m),
       histo_files := (histo_files t)(file_basename @ ''.histo'' \<mapsto> ms),
       write_log := write_log t @ [file_basename @ ''.model'', file_basename @ ''.histo'']\<rparr>"

text \<open>
  \<^verbatim>\<open>load_trainer_state(file_basename, model, metrics)\<close>, always called with the
  trainer's own model and metrics: the parameters are loaded into the model (a missing
  file raises), and if the history file exists \<^verbatim>\<open>metrics.update\<close> replaces both
  phases by the stored ones.
\<close>

definition load_trainer_state :: "string \<Rightarrow> ('p, 'x) trainer hook" where
  "load_trainer_state file_basename t =
     (case model_files t (file_basename @ ''.model'') of
        None \<Rightarrow> (Some FileNotFoundError, t)
      | Some p \<Rightarrow>
          (case histo_files t (file_basename @ ''.histo'') of
             None \<Rightarrow> (None, t\<lparr>model := (model t)\<lparr>params := p\<rparr>\<rparr>)
           | Some h \<Rightarrow> (None, t\<lparr>model := (model t)\<lparr>params := p\<rparr>, metrics := h\<rparr>)))"

text \<open>\<^verbatim>\<open>DeepNetTrainer.load_state\<close> and \<^verbatim>\<open>DeepNetTrainer.save_state\<close>.\<close>

definition load_state :: "string \<Rightarrow> ('p, 'x) trainer hook" where
  "load_state file_basename t =
     (case load_trainer_state file_basename t of
        (Some e, t') \<Rightarrow> (Some e, t')
      | (None, t') \<Rightarrow> (None, t'\<lparr>last_epoch := length (train_losses (metrics t'))\<rparr>))"

definition save_state :: "string \<Rightarrow> ('p, 'x) trainer \<Rightarrow> ('p, 'x) trainer" where
  "save_state file_basename t = save_trainer_state file_basename (model t) (metrics t) t"

section \<open>ModelCheckpoint\<close>

text \<open>
  The attributes of a \<^verbatim>\<open>ModelCheckpoint\<close>; the three \<open>best_\<close> attributes exist only
  after \<^verbatim>\<open>on_train_begin\<close>.  The \<^verbatim>\<open>verbose\<close> level only prints and is left out.
\<close>

record 'p ModelCheckpoint =
  basename :: "string option"
  reset :: bool
  load_best :: bool
  best_model :: "'p net option"
  best_epoch :: "nat option"
  best_loss :: "real option"

text \<open>
  \<^verbatim>\<open>ModelCheckpoint.__init__\<close> starts with
  \<^verbatim>\<open>os.makedirs(os.path.dirname(model_basename), exist_ok=True)\<close>:
  \<^verbatim>\<open>os.path.dirname\<close> raises \<^verbatim>\<open>TypeError\<close> for \<^verbatim>\<open>None\<close>, and for a basename
  without a directory part (no \<^verbatim>\<open>/\<close>) it returns the empty string, for which
  \<^verbatim>\<open>os.makedirs\<close> raises \<^verbatim>\<open>FileNotFoundError\<close>.  A constructed checkpointer
  therefore has a basename.
\<close>

definition ModelCheckpoint_init :: "string option \<Rightarrow> bool \<Rightarrow> bool \<Rightarrow> error + 'p ModelCheckpoint" where
  "ModelCheckpoint_init model_basename reset' load_best' =
     (case model_basename of
        None \<Rightarrow> Inl TypeError
      | Some b \<Rightarrow>
          if CHR ''/'' \<notin> set b then Inl FileNotFoundError
          else Inr \<lparr> basename = Some b, reset = reset', load_best = load_best',
                     best_model = None, best_epoch = None, best_loss = None \<rparr>)"

text \<open>
  The monitored loss
  \<^verbatim>\<open>metrics['valid']['losses'][-1] or metrics['train']['losses'][-1]\<close>: the right
  operand is evaluated when the left one is falsy, that is \<^verbatim>\<open>None\<close> or \<^verbatim>\<open>0.0\<close>.
\<close>

definition monitored_loss :: "metrics \<Rightarrow> error + real" where
  "monitored_loss ms =
     (case py_last (valid_losses ms) of
        Inl e \<Rightarrow> Inl e
      | Inr v \<Rightarrow>
          (case v of
             None \<Rightarrow> py_last (train_losses ms)
           | Some x \<Rightarrow> if x \<noteq> 0 then Inr x else py_last (train_losses ms)))"

text \<open>\<^verbatim>\<open>ModelCheckpoint.on_train_begin\<close>, on the checkpointer and its trainer.\<close>

definition mc_on_train_begin ::
  "nat \<Rightarrow> ('p ModelCheckpoint \<times> ('p, 'x) trainer) hook" where
  "mc_on_train_begin n_epochs s =
     (case (case basename (fst s) of
              None \<Rightarrow> (None, snd s)
            | Some b \<Rightarrow>
                if \<not> reset (fst s) \<and> model_files (snd s) (b @ ''.model'') \<noteq> None
                then load_trainer_state b (snd s) else (None, snd s)) of
        (Some e, t1) \<Rightarrow> (Some e, (fst s, t1))
      | (None, t1) \<Rightarrow>
          (let t2 = t1\<lparr>last_epoch := length (train_losses (metrics t1))\<rparr>;
               t3 = (case scheduler t2 of
                       None \<Rightarrow> t2
                     | Some sch \<Rightarrow>
                         t2\<lparr>scheduler := Some (sch\<lparr>last_epoch_attr := int (last_epoch t2)\<rparr>)\<rparr>);
               cp = (fst s)\<lparr>best_model := Some (model t3), best_epoch := Some (last_epoch t3),
                           best_loss := Some (10 ^ 10)\<rparr>
           in if last_epoch t3 > 0
              then (case monitored_loss (metrics t3) of
                      Inl e \<Rightarrow> (Some e, (cp, t3))
                    | Inr l \<Rightarrow> (None, (cp\<lparr>best_loss := Some l\<rparr>, t3)))
              else (None, (cp, t3))))"

text \<open>\<^verbatim>\<open>ModelCheckpoint.on_epoch_end\<close>.\<close>

definition mc_on_epoch_end ::
  "nat \<Rightarrow> ('p ModelCheckpoint \<times> ('p, 'x) trainer) hook" where
  "mc_on_epoch_end epoch s =
     (case monitored_loss (metrics (snd s)) of
        Inl e \<Rightarrow> (Some e, s)
      | Inr eloss \<Rightarrow>
          (case best_loss (fst s) of
             None \<Rightarrow> (Some AttributeError, s)
           | Some bl \<Rightarrow>
               if eloss < bl
               then (None,
                     ((fst s)\<lparr>best_loss := Some eloss, best_epoch := Some epoch,
                              best_model := Some (model (snd s))\<rparr>,
                      (case basename (fst s) of
                         None \<Rightarrow> snd s
                       | Some b \<Rightarrow>
                           save_trainer_state b (model (snd s)) (metrics (snd s)) (snd s))))
               else (None, s)))"

text \<open>\<^verbatim>\<open>ModelCheckpoint.on_train_end\<close> (without its printing).\<close>

definition mc_on_train_end ::
  "nat \<Rightarrow> ('p ModelCheckpoint \<times> ('p, 'x) trainer) hook" where
  "mc_on_train_end n_epochs s =
     (if load_best (fst s)
      then (case basename (fst s) of
              None \<Rightarrow> (Some TypeError, s)
            | Some b \<Rightarrow>
                (case load_trainer_state b (snd s) of (r, t') \<Rightarrow> (r, (fst s, t'))))
      else (None, s))"

text \<open>
  A checkpointer registered as a callback: the trainer's \<open>ext\<close> component holds the
  checkpointer's attributes, and each hook runs the method on the checkpointer and the
  trainer (the back-reference \<^verbatim>\<open>self.trainer\<close>).
\<close>

definition with_checkpoint ::
  "('p ModelCheckpoint \<times> ('p, 'p ModelCheckpoint) trainer) hook
     \<Rightarrow> ('p, 'p ModelCheckpoint) trainer hook" where
  "with_checkpoint h t = (case h (ext t, t) of (r, (cp, t')) \<Rightarrow> (r, t'\<lparr>ext := cp\<rparr>))"

definition ModelCheckpoint_callback :: "('p, 'p ModelCheckpoint, 'b, 'y) callback" where
  "ModelCheckpoint_callback =
     Callback\<lparr> on_train_begin := (\<lambda>n. with_checkpoint (mc_on_train_begin n)),
               on_train_end := (\<lambda>n. with_checkpoint (mc_on_train_end n)),
               on_epoch_end := (\<lambda>ep. with_checkpoint (mc_on_epoch_end ep)) \<rparr>"

section \<open>The learning-rate finder\<close>

text \<open>
  The sweep loop of \<^verbatim>\<open>lr_find\<close> from index \<open>i\<close> on.  \<open>sgd lr' b m\<close> is one
  optimisation step of the throwaway SGD optimizer at rate \<open>lr'\<close> on batch \<open>b\<close>: it
  returns the loss or raises, and the new parameters.  The rate of step \<open>i\<close> is the
  \<^verbatim>\<open>LambdaLR\<close> rate after its \<open>(i+1)\<close>-th \<^verbatim>\<open>step()\<close>, \<^verbatim>\<open>min_lr * lambda_schd(i + 1)\<close>.
  The accumulator is \<^verbatim>\<open>(best, lrs, losses)\<close>.
\<close>

fun sweep ::
  "(real \<Rightarrow> 'b \<Rightarrow> 'p net \<Rightarrow> (error + real) \<times> 'p) \<Rightarrow> real \<Rightarrow> (nat \<Rightarrow> real) \<Rightarrow> int \<Rightarrow> nat
     \<Rightarrow> 'b list \<Rightarrow> real \<times> real list \<times> real list \<Rightarrow> 'p net
     \<Rightarrow> error option \<times> (real list \<times> real list) \<times> 'p net" where
  "sweep sgd min_lr lambda_schd num_it i [] acc m = (None, snd acc, m)"
| "sweep sgd min_lr lambda_schd num_it i (b # bs) acc m =
     (case sgd (min_lr * lambda_schd (i + 1)) b m of
        (Inl e, p') \<Rightarrow>
          (Some e, (fst (snd acc) @ [min_lr * lambda_schd (i + 1)], snd (snd acc)),
           m\<lparr>params := p'\<rparr>)
      | (Inr iloss, p') \<Rightarrow>
          (if iloss < fst acc
           then sweep sgd min_lr lambda_schd num_it (i + 1) bs
                  (iloss, fst (snd acc) @ [min_lr * lambda_schd (i + 1)],
                   snd (snd acc) @ [iloss])
                  (m\<lparr>params := p'\<rparr>)
           else if iloss > fst acc * 10000 \<or> int i = num_it - 1
           then (None, (fst (snd acc) @ [min_lr * lambda_schd (i + 1)],
                        snd (snd acc) @ [iloss]), m\<lparr>params := p'\<rparr>)
           else sweep sgd min_lr lambda_schd num_it (i + 1) bs
                  (fst acc, fst (snd acc) @ [min_lr * lambda_schd (i + 1)],
                   snd (snd acc) @ [iloss])
                  (m\<lparr>params := p'\<rparr>)))"

text \<open>
  \<^verbatim>\<open>lr_find(self, dataloader, min_lr, max_lr, linear, num_it)\<close>.  \<^verbatim>\<open>num_it or
  len(dataloader)\<close> takes the length for \<^verbatim>\<open>None\<close> and for \<^verbatim>\<open>0\<close>; the two divisions
  before the \<^verbatim>\<open>try\<close> can raise; \<^verbatim>\<open>finally\<close> runs \<^verbatim>\<open>load_state('tmp')\<close> however
  the loop ends, and an exception of the loop is re-raised after it.  The plotting calls
  after the \<^verbatim>\<open>finally\<close> block are left out; the ratio is taken to be positive (Python's
  power of a negative float is complex).
\<close>

definition lr_find ::
  "(real \<Rightarrow> 'b \<Rightarrow> 'p net \<Rightarrow> (error + real) \<times> 'p) \<Rightarrow> 'b list \<Rightarrow> real \<Rightarrow> real \<Rightarrow> bool
     \<Rightarrow> int option \<Rightarrow> ('p, 'x) trainer
     \<Rightarrow> (error + real list \<times> real list) \<times> ('p, 'x) trainer" where
  "lr_find sgd dataloader min_lr max_lr linear' num_it t =
     (let num_it' = (case num_it of
                       None \<Rightarrow> int (length dataloader)
                     | Some k \<Rightarrow> if k = 0 then int (length dataloader) else k)
      in if min_lr = 0 then (Inl ZeroDivisionError, t)
         else if num_it' = 0 then (Inl ZeroDivisionError, t)
         else
           (let ratio = max_lr / min_lr;
                lr_mult = (if linear' then ratio / real_of_int num_it'
                           else ratio powr (1 / real_of_int num_it'));
                lambda_schd = (\<lambda>it. if linear' then lr_mult * real it else lr_mult ^ it);
                t1 = save_state ''tmp'' t
            in case sweep sgd min_lr lambda_schd num_it' 0 dataloader (10 ^ 9, [], [])
                      ((model t1)\<lparr>training := True\<rparr>) of
                 (r, out, m') \<Rightarrow>
                   (case load_state ''tmp'' (t1\<lparr>model := m'\<rparr>) of
                      (Some e, t4) \<Rightarrow> (Inl e, t4)
                    | (None, t4) \<Rightarrow>
                        (case r of Some e \<Rightarrow> (Inl e, t4) | None \<Rightarrow> (Inr out, t4)))))"

section \<open>Properties of the warm-restart schedule\<close>


lemma get_lr_state:
  "snd (get_lr base_lr cepoch cbatch tnb sg) = sg_restart_update (sg_epoch_update cepoch sg)"
  by (simp add: get_lr_def Let_def split: sum.splits)















lemma sg_epoch_update_again:
  "sg_epoch_update cepoch (sg_restart_update (sg_epoch_update cepoch sg))
     = sg_restart_update (sg_epoch_update cepoch sg)"
  by (auto simp add: sg_epoch_update_def sg_restart_update_def intro: SGDRestarts.equality)


text \<open>
  Claim C2.  As stated (\<^verbatim>\<open>Tcur\<close> counts batches and changes once per batch) the claim
  fails: after the two batches of one epoch \<^verbatim>\<open>Tcur\<close> is 1.
\<close>

theorem Tcur_not_per_batch_counterexample:
  "Tcur (snd (snd (run_hooks
       [sg_on_train_begin 0, sg_on_batch_begin 1 0 None, sg_on_batch_begin 1 1 None]
       ([\<lparr> lr = 1 / 2, initial_lr = 1 / 2 \<rparr>],
        \<lparr> eta_min = 1 / 10, To = 4, Ti = 4, Tmul = 1, restarts = 0, Tcur = 0,
          n_batches_arg = Some 2, sched_last_epoch = - 1, history = [] \<rparr>)))) = 1"
  by (simp add: sg_on_train_begin_def sg_on_batch_begin_def sg_step_def get_lr_def
      sg_restart_update_def sg_epoch_update_def sg_n_batches_def sg_rate_def Let_def)

text \<open>
  Claim C2, amended.  \<^verbatim>\<open>Tcur\<close> counts epochs.  A call of \<^verbatim>\<open>get_lr\<close> records the
  epoch when it is the first call ever or the epoch is later than the recorded one, and
  increments \<^verbatim>\<open>Tcur\<close> in the second case only.  Whenever \<^verbatim>\<open>Tcur\<close>, after that
  possible increment, equals \<^verbatim>\<open>Ti\<close>, a restart occurs: \<^verbatim>\<open>Tcur\<close> is reset to 0, the
  restart counter is incremented and \<^verbatim>\<open>Ti = To * Tmul ** restarts\<close>; otherwise the
  restart counter and \<^verbatim>\<open>Ti\<close> are unchanged.  A further call for the same epoch (another
  parameter group or another batch, \<open>sg2\<close> below) changes neither \<^verbatim>\<open>Tcur\<close> nor the
  recorded epoch, and changes nothing at all unless \<^verbatim>\<open>Ti\<close> is 0.
\<close>

theorem get_lr_Tcur_counts_epochs:
  "let sg1 = snd (get_lr base_lr cepoch cbatch tnb sg);
       sg2 = snd (get_lr base_lr' cepoch cbatch' tnb' sg1);
       new_epoch = (sched_last_epoch sg \<noteq> - 1 \<and> cepoch > sched_last_epoch sg);
       T = (if new_epoch then Tcur sg + 1 else Tcur sg)
   in sched_last_epoch sg1
        = (if sched_last_epoch sg = - 1 \<or> new_epoch then cepoch else sched_last_epoch sg)
      \<and> (if T = Ti sg
          then Tcur sg1 = 0 \<and> restarts sg1 = restarts sg + 1
               \<and> Ti sg1 = To sg * Tmul sg ^ restarts sg1
          else Tcur sg1 = T \<and> restarts sg1 = restarts sg \<and> Ti sg1 = Ti sg)
      \<and> Tcur sg2 = Tcur sg1 \<and> sched_last_epoch sg2 = sched_last_epoch sg1
      \<and> (Ti sg1 \<noteq> 0 \<longrightarrow> sg2 = sg1)"
proof -
  define s1 where "s1 = sg_restart_update (sg_epoch_update cepoch sg)"
  have g1: "snd (get_lr base_lr cepoch cbatch tnb sg) = s1"
    by (simp add: s1_def get_lr_state)
  have g2: "snd (get_lr base_lr' cepoch cbatch' tnb' s1) = sg_restart_update s1"
    by (simp add: get_lr_state s1_def sg_epoch_update_again)
  have a: "sched_last_epoch s1
        = (if sched_last_epoch sg = - 1 \<or> (sched_last_epoch sg \<noteq> - 1 \<and> cepoch > sched_last_epoch sg)
           then cepoch else sched_last_epoch sg)"
    by (simp add: s1_def sg_restart_update_def sg_epoch_update_def)
  have b: "(if (if sched_last_epoch sg \<noteq> - 1 \<and> cepoch > sched_last_epoch sg
                then Tcur sg + 1 else Tcur sg) = Ti sg
          then Tcur s1 = 0 \<and> restarts s1 = restarts sg + 1
               \<and> Ti s1 = To sg * Tmul sg ^ restarts s1
          else Tcur s1 = (if sched_last_epoch sg \<noteq> - 1 \<and> cepoch > sched_last_epoch sg
                          then Tcur sg + 1 else Tcur sg)
               \<and> restarts s1 = restarts sg \<and> Ti s1 = Ti sg)"
    by (simp add: s1_def sg_restart_update_def sg_epoch_update_def)
  have z: "Tcur s1 = 0" if "Tcur s1 = Ti s1"
    using that by (auto simp add: s1_def sg_restart_update_def split: if_splits)
  have c: "Tcur (sg_restart_update s1) = Tcur s1"
    "sched_last_epoch (sg_restart_update s1) = sched_last_epoch s1"
    using z by (simp_all add: sg_restart_update_def)
  have nr: "Tcur s1 \<noteq> Ti s1" if "Ti s1 \<noteq> 0"
    using that z by auto
  have d: "Ti s1 \<noteq> 0 \<longrightarrow> sg_restart_update s1 = s1"
    using nr by (simp add: sg_restart_update_def)
  show ?thesis
    unfolding Let_def g1 g2 using a b c d by simp
qed

theorem get_lr_Tcur_counts_epochs_witness:
  "(let sg = \<lparr> eta_min = 1 / 10, To = 4, Ti = 4, Tmul = 1, restarts = 0, Tcur = 1,
               n_batches_arg = Some 3, sched_last_epoch = 1, history = [] \<rparr>;
        sg1 = snd (get_lr (1 / 2) 2 0 None sg);
        sg2 = snd (get_lr (1 / 2) 2 1 None sg1)
    in Tcur sg1 = 2 \<and> sched_last_epoch sg1 = 2 \<and> Ti sg1 \<noteq> 0 \<and> sg2 = sg1)"
proof -
  let ?sg = "\<lparr> eta_min = 1 / 10, To = 4, Ti = 4, Tmul = 1, restarts = 0, Tcur = 1,
               n_batches_arg = Some 3, sched_last_epoch = 1, history = [] \<rparr>"
  have t: "Ti (snd (get_lr (1 / 2) 2 0 None ?sg)) \<noteq> 0"
    by (simp add: get_lr_state sg_restart_update_def sg_epoch_update_def)
  show ?thesis
    using get_lr_Tcur_counts_epochs[of "1 / 2" 2 0 None ?sg "1 / 2" 1 None] t
    by (simp add: Let_def)
qed





text \<open>
  Driven through the trainer, \<^verbatim>\<open>on_train_begin\<close> replaces the initial
  \<^verbatim>\<open>last_epoch = -1\<close> by the trainer's \<^verbatim>\<open>last_epoch\<close>, the first batch then counts
  as a new epoch, and the first period starts at \<^verbatim>\<open>Tcur = 1\<close>.
\<close>

lemma first_period_after_on_train_begin:
  "run_hooks [sg_on_train_begin 0, sg_on_batch_begin 1 0 None]
     ([\<lparr> lr = 1 / 2, initial_lr = 1 / 2 \<rparr>],
      \<lparr> eta_min = 1 / 10, To = 4, Ti = 4, Tmul = 1, restarts = 0, Tcur = 0,
        n_batches_arg = Some 1, sched_last_epoch = - 1, history = [] \<rparr>)
   = (None,
      ([\<lparr> lr = 2 / 5, initial_lr = 1 / 2 \<rparr>],
       \<lparr> eta_min = 1 / 10, To = 4, Ti = 4, Tmul = 1, restarts = 0, Tcur = 1,
         n_batches_arg = Some 1, sched_last_epoch = 1, history = [1 / 2] \<rparr>))"
  by (simp add: sg_on_train_begin_def sg_on_batch_begin_def sg_step_def get_lr_def
      sg_restart_update_def sg_epoch_update_def sg_n_batches_def sg_rate_def sg_cosine_def
      Let_def cos_60)

section \<open>Properties of the checkpointer\<close>

lemma monitored_loss_last:
  assumes "valid_losses ms = vs @ [v]" "train_losses ms = ts @ [l]"
  shows "monitored_loss ms = Inr (case v of None \<Rightarrow> l | Some x \<Rightarrow> if x \<noteq> 0 then x else l)"
  using assms by (simp add: monitored_loss_def py_last_def split: option.splits)

text \<open>
  Claim C5.  On \<^verbatim>\<open>on_epoch_end\<close>, with one value appended to each loss history and
  a best loss \<open>bl\<close> in place, the monitored loss is the last validation loss when that
  is a non-zero number, and the last training loss both when the validation loss is
  \<^verbatim>\<open>None\<close> and when it is exactly zero; this monitored loss is what the hook compares
  with the best loss, which becomes the smaller of the two.
\<close>

theorem checkpoint_monitored_loss:
  assumes "valid_losses (metrics t) = vs @ [v]" "train_losses (metrics t) = ts @ [l]"
    and "best_loss cp = Some bl"
  shows "let eloss = (case v of None \<Rightarrow> l | Some x \<Rightarrow> if x \<noteq> 0 then x else l);
             r = mc_on_epoch_end epoch (cp, t)
         in monitored_loss (metrics t) = Inr eloss
            \<and> fst r = None
            \<and> best_loss (fst (snd r)) = Some (min eloss bl)"
  using assms monitored_loss_last[OF assms(1,2)]
  by (simp add: mc_on_epoch_end_def Let_def min_def)

theorem checkpoint_monitored_loss_witness:
  "(let t = (DeepNetTrainer_init \<lparr> params = (), training = False \<rparr> None ())
             \<lparr> metrics := \<lparr> train_losses = [3 / 10], valid_losses = [Some 0],
                            train_other = [], valid_other = [] \<rparr> \<rparr>;
        cp = \<lparr> basename = Some ''m'', reset = False, load_best = False,
               best_model = None, best_epoch = Some 0, best_loss = Some 1 \<rparr>
    in monitored_loss (metrics t) = Inr (3 / 10)
       \<and> best_loss (fst (snd (mc_on_epoch_end 1 (cp, t)))) = Some (3 / 10))"
proof -
  let ?t = "(DeepNetTrainer_init \<lparr> params = (), training = False \<rparr> None ())
             \<lparr> metrics := \<lparr> train_losses = [3 / 10], valid_losses = [Some 0],
                            train_other = [], valid_other = [] \<rparr> \<rparr>"
  let ?cp = "\<lparr> basename = Some ''m'', reset = False, load_best = False,
               best_model = None, best_epoch = Some 0, best_loss = Some 1 \<rparr>"
  have a: "valid_losses (metrics ?t) = [] @ [Some 0]" by simp
  have b: "train_losses (metrics ?t) = [] @ [3 / 10]" by simp
  have c: "best_loss ?cp = Some 1" by simp
  show ?thesis
    using checkpoint_monitored_loss[OF a b c, of 1] by (simp add: Let_def)
qed

text \<open>
  Runs of 1, 2, 3 and 4 epochs with the checkpointer as the only callback, one batch per
  epoch and no validation data; the training losses of the epochs are 0.5, 0.5, 0.4 and
  0.6.  For each run: the files written, the parameters in the model file (the number of
  optimisation steps done when it was written), the training losses in the history file,
  and the best epoch and loss.  One save after the first epoch, none in the second, one
  in the third, none in the fourth.
\<close>

lemmas fit_eval =
  fit_loader_def fit_setup_def fit_try_def epoch_range_def fit_epoch_def validation_phase_def
  scheduler_step_def py_div_def Callback_def DeepNetTrainer_init_def Let_def upt_rec
  eval_nat_numeral

lemmas checkpoint_eval =
  ModelCheckpoint_callback_def with_checkpoint_def mc_on_train_begin_def mc_on_epoch_end_def
  mc_on_train_end_def monitored_loss_def py_last_def save_trainer_state_def
  load_trainer_state_def

lemma checkpoint_four_epochs:
  "map (\<lambda>n. let t = snd (fit_loader
            \<lparr> mb_size = (\<lambda>b. 1),
              do_optimize = (\<lambda>b m x. (Inr ((), [1 / 2, 1 / 2, 2 / 5, 3 / 5] ! params m),
                                       Suc (params m), x)),
              do_evaluate = (\<lambda>b m. Inr ((), None)), size_average = False \<rparr>
            [ModelCheckpoint_callback] n
            \<lparr> batches = [()], dataset_len = 1, batch_size = 1 \<rparr> None
            (DeepNetTrainer_init \<lparr> params = 0, training = False \<rparr> None
               \<lparr> basename = Some ''c/m'', reset = False, load_best = False,
                 best_model = None, best_epoch = None, best_loss = None \<rparr>))
          in (write_log t, model_files t ''c/m.model'',
              map_option train_losses (histo_files t ''c/m.histo''),
              best_epoch (ext t), best_loss (ext t)))
     [1, 2, 3, 4]
   = [([''c/m.model'', ''c/m.histo''], Some 1, Some [1 / 2], Some 1, Some (1 / 2)),
      ([''c/m.model'', ''c/m.histo''], Some 1, Some [1 / 2], Some 1, Some (1 / 2)),
      ([''c/m.model'', ''c/m.histo'', ''c/m.model'', ''c/m.histo''], Some 3,
       Some [1 / 2, 1 / 2, 2 / 5], Some 3, Some (2 / 5)),
      ([''c/m.model'', ''c/m.histo'', ''c/m.model'', ''c/m.histo''], Some 3,
       Some [1 / 2, 1 / 2, 2 / 5], Some 3, Some (2 / 5))]"
  by (simp add: fit_eval checkpoint_eval)

text \<open>
  Claim C7.  For a checkpointer with a basename (the constructor admits no other) and a
  best loss in place, \<^verbatim>\<open>on_epoch_end\<close> replaces the best loss, epoch and model
  snapshot and persists exactly when the monitored loss is strictly less than the best
  loss: then the model file holds the current parameters, the history file the current
  metrics, and both writes are logged; otherwise the checkpointer, the files and the log
  are unchanged.  With epoch losses 0.5, 0.5, 0.4, 0.6 from the initial best loss
  \<^verbatim>\<open>1e10\<close> exactly two saves occur, in epochs 1 and 3.
\<close>

theorem checkpoint_saves_on_strict_improvement:
  assumes "monitored_loss (metrics t) = Inr eloss" "best_loss cp = Some bl" "basename cp = Some b"
  shows "mc_on_epoch_end epoch (cp, t) =
           (None,
            if eloss < bl
            then (cp\<lparr>best_loss := Some eloss, best_epoch := Some epoch,
                      best_model := Some (model t)\<rparr>,
                  save_trainer_state b (model t) (metrics t) t)
            else (cp, t))
         \<and> (let t' = snd (snd (mc_on_epoch_end epoch (cp, t)))
            in write_log t'
                 = write_log t @ (if eloss < bl then [b @ ''.model'', b @ ''.histo''] else [])
               \<and> model_files t' = (if eloss < bl
                                     then (model_files t)(b @ ''.model'' \<mapsto> params (model t))
                                     else model_files t)
               \<and> histo_files t' = (if eloss < bl
                                     then (histo_files t)(b @ ''.histo'' \<mapsto> metrics t)
                                     else histo_files t)
               \<and> model t' = model t \<and> metrics t' = metrics t)
         \<and> map (\<lambda>n. let t = snd (fit_loader
                  \<lparr> mb_size = (\<lambda>b. 1),
                    do_optimize = (\<lambda>b m x. (Inr ((), [1 / 2, 1 / 2, 2 / 5, 3 / 5] ! params m),
                                             Suc (params m), x)),
                    do_evaluate = (\<lambda>b m. Inr ((), None)), size_average = False \<rparr>
                  [ModelCheckpoint_callback] n
                  \<lparr> batches = [()], dataset_len = 1, batch_size = 1 \<rparr> None
                  (DeepNetTrainer_init \<lparr> params = 0, training = False \<rparr> None
                     \<lparr> basename = Some ''c/m'', reset = False, load_best = False,
                       best_model = None, best_epoch = None, best_loss = None \<rparr>))
                in (write_log t, model_files t ''c/m.model'',
                    map_option train_losses (histo_files t ''c/m.histo''),
                    best_epoch (ext t), best_loss (ext t)))
             [1, 2, 3, 4]
           = [([''c/m.model'', ''c/m.histo''], Some 1, Some [1 / 2], Some 1, Some (1 / 2)),
              ([''c/m.model'', ''c/m.histo''], Some 1, Some [1 / 2], Some 1, Some (1 / 2)),
              ([''c/m.model'', ''c/m.histo'', ''c/m.model'', ''c/m.histo''], Some 3,
               Some [1 / 2, 1 / 2, 2 / 5], Some 3, Some (2 / 5)),
              ([''c/m.model'', ''c/m.histo'', ''c/m.model'', ''c/m.histo''], Some 3,
               Some [1 / 2, 1 / 2, 2 / 5], Some 3, Some (2 / 5))]"
proof -
  have a: "mc_on_epoch_end epoch (cp, t) =
           (None,
            if eloss < bl
            then (cp\<lparr>best_loss := Some eloss, best_epoch := Some epoch,
                      best_model := Some (model t)\<rparr>,
                  save_trainer_state b (model t) (metrics t) t)
            else (cp, t))"
    using assms by (simp add: mc_on_epoch_end_def)
  have b: "(let t' = snd (snd (mc_on_epoch_end epoch (cp, t)))
            in write_log t'
                 = write_log t @ (if eloss < bl then [b @ ''.model'', b @ ''.histo''] else [])
               \<and> model_files t' = (if eloss < bl
                                     then (model_files t)(b @ ''.model'' \<mapsto> params (model t))
                                     else model_files t)
               \<and> histo_files t' = (if eloss < bl
                                     then (histo_files t)(b @ ''.histo'' \<mapsto> metrics t)
                                     else histo_files t)
               \<and> model t' = model t \<and> metrics t' = metrics t)"
    by (simp add: a save_trainer_state_def Let_def)
  show ?thesis
    by (intro conjI a b checkpoint_four_epochs)
qed

theorem checkpoint_saves_on_strict_improvement_witness:
  "(let t = (DeepNetTrainer_init \<lparr> params = (7 :: nat), training = False \<rparr> None ())
             \<lparr> metrics := \<lparr> train_losses = [1 / 2, 2 / 5], valid_losses = [None, None],
                            train_other = [], valid_other = [] \<rparr> \<rparr>;
        cp = \<lparr> basename = Some ''c/m'', reset = False, load_best = False,
               best_model = None, best_epoch = Some 1, best_loss = Some (1 / 2) \<rparr>;
        cp' = cp\<lparr> best_loss := Some (2 / 5) \<rparr>;
        t' = snd (snd (mc_on_epoch_end 2 (cp, t)))
    in write_log t' = [''c/m.model'', ''c/m.histo'']
       \<and> model_files t' ''c/m.model'' = Some 7
       \<and> histo_files t' ''c/m.histo'' = Some (metrics t)
       \<and> best_epoch (fst (snd (mc_on_epoch_end 2 (cp, t)))) = Some 2
       \<and> mc_on_epoch_end 2 (cp', t) = (None, (cp', t)))"
proof -
  let ?t = "(DeepNetTrainer_init \<lparr> params = (7 :: nat), training = False \<rparr> None ())
             \<lparr> metrics := \<lparr> train_losses = [1 / 2, 2 / 5], valid_losses = [None, None],
                            train_other = [], valid_other = [] \<rparr> \<rparr> :: (nat, unit) trainer"
  let ?cp = "\<lparr> basename = Some ''c/m'', reset = False, load_best = False,
               best_model = None, best_epoch = Some 1, best_loss = Some (1 / 2) \<rparr>
             :: nat ModelCheckpoint"
  let ?cp' = "?cp\<lparr> best_loss := Some (2 / 5) \<rparr>"
  have m: "monitored_loss (metrics ?t) = Inr (2 / 5)"
    by (simp add: monitored_loss_def py_last_def)
  have b1: "best_loss ?cp = Some (1 / 2)" and b2: "best_loss ?cp' = Some (2 / 5)"
    and n1: "basename ?cp = Some ''c/m''" and n2: "basename ?cp' = Some ''c/m''"
    by simp_all
  have w: "write_log ?t = []" "params (model ?t) = 7"
    by (simp_all add: DeepNetTrainer_init_def)
  show ?thesis
    using checkpoint_saves_on_strict_improvement[OF m b1 n1, of 2]
      checkpoint_saves_on_strict_improvement[OF m b2 n2, of 2] w
    by (simp add: Let_def save_trainer_state_def DeepNetTrainer_init_def)
qed

text \<open>
  When \<^verbatim>\<open>ModelCheckpoint.on_train_begin\<close> returns, the trainer's \<^verbatim>\<open>last_epoch\<close> is
  the length of the training-loss history, the best epoch is that value, and with an
  empty history the best loss is the sentinel \<^verbatim>\<open>1e10\<close>.
\<close>

theorem checkpoint_realigns_last_epoch:
  assumes "mc_on_train_begin n (cp, t) = (None, (cp', t'))"
  shows "last_epoch t' = length (train_losses (metrics t'))
       \<and> best_epoch cp' = Some (last_epoch t')
       \<and> (last_epoch t' = 0 \<longrightarrow> best_loss cp' = Some (10 ^ 10))"
  using assms
  by (auto simp add: mc_on_train_begin_def Let_def load_trainer_state_def
      split: option.splits if_splits prod.splits sum.splits)

theorem checkpoint_realigns_last_epoch_witness:
  "(let t = (DeepNetTrainer_init \<lparr> params = (), training = False \<rparr> None ())
             \<lparr> metrics := \<lparr> train_losses = [1 / 2, 2 / 5], valid_losses = [None, None],
                            train_other = [], valid_other = [] \<rparr> \<rparr>;
        cp = \<lparr> basename = Some ''c/m'', reset = False, load_best = False,
               best_model = None, best_epoch = None, best_loss = None \<rparr>;
        r = mc_on_train_begin 3 (cp, t)
    in fst r = None \<and> last_epoch (snd (snd r)) = 2 \<and> best_epoch (fst (snd r)) = Some 2
       \<and> best_loss (fst (snd r)) = Some (2 / 5))"
proof -
  let ?t = "(DeepNetTrainer_init \<lparr> params = (), training = False \<rparr> None ())
             \<lparr> metrics := \<lparr> train_losses = [1 / 2, 2 / 5], valid_losses = [None, None],
                            train_other = [], valid_other = [] \<rparr> \<rparr> :: (unit, unit) trainer"
  let ?cp = "\<lparr> basename = Some ''c/m'', reset = False, load_best = False,
               best_model = None, best_epoch = None, best_loss = None \<rparr> :: unit ModelCheckpoint"
  let ?r = "mc_on_train_begin 3 (?cp, ?t)"
  have h: "?r = (None, (fst (snd ?r), snd (snd ?r)))"
    by (simp add: mc_on_train_begin_def DeepNetTrainer_init_def monitored_loss_def py_last_def
        Let_def prod_eq_iff)
  have v: "length (train_losses (metrics (snd (snd ?r)))) = 2"
      "best_loss (fst (snd ?r)) = Some (2 / 5)"
    by (simp_all add: mc_on_train_begin_def DeepNetTrainer_init_def monitored_loss_def py_last_def
        Let_def)
  show ?thesis
    using checkpoint_realigns_last_epoch[OF h] h v
    by (simp add: Let_def prod_eq_iff)
qed

section \<open>Properties of the training loop\<close>

text \<open>
  Claim C1.  A fresh trainer with validation data and a callback that records the epoch
  index of every \<^verbatim>\<open>on_epoch_begin\<close> is fitted for one epoch and then for two.  Both
  calls complete and both loss histories have three entries, but \<^verbatim>\<open>fit_loader\<close>
  never assigns \<^verbatim>\<open>self.last_epoch\<close>: it is 0 before and after each call, and the
  epoch indices passed to the callback are 1 and then 1, 2 again.
\<close>

theorem fit_twice_restarts_epoch_indices:
  "(let E = \<lparr> mb_size = (\<lambda>b. 1), do_optimize = (\<lambda>b m x. (Inr ((), 1 / 2), params m, x)),
              do_evaluate = (\<lambda>b m. Inr ((), Some (1 / 4))), size_average = False \<rparr>;
        cb = Callback\<lparr> on_epoch_begin := (\<lambda>ep t. (None, t\<lparr>ext := ext t @ [ep]\<rparr>)) \<rparr>;
        tr = \<lparr> batches = [()], dataset_len = 1, batch_size = 1 \<rparr>;
        t0 = DeepNetTrainer_init \<lparr> params = (), training = False \<rparr> None [];
        r1 = fit_loader E [cb] 1 tr (Some tr) t0;
        r2 = fit_loader E [cb] 2 tr (Some tr) (snd r1)
    in fst r1 = None \<and> fst r2 = None
       \<and> last_epoch t0 = 0 \<and> last_epoch (snd r1) = 0 \<and> last_epoch (snd r2) = 0
       \<and> ext (snd r1) = [1] \<and> ext (snd r2) = [1, 1, 2]
       \<and> train_losses (metrics (snd r2)) = [1 / 2, 1 / 2, 1 / 2]
       \<and> valid_losses (metrics (snd r2)) = [Some (1 / 4), Some (1 / 4), Some (1 / 4)])"
  by (simp add: fit_eval)





text \<open>
  Claim C10.  When the training loader yields no batch, at least one epoch is requested
  and the hooks before the first batch loop do not raise, the training loss of the first
  epoch is \<^verbatim>\<open>0 / 0\<close>: \<^verbatim>\<open>fit_loader\<close> raises \<^verbatim>\<open>ZeroDivisionError\<close> from the
  state reached after the \<^verbatim>\<open>on_epoch_begin\<close> hooks, nothing is appended to the
  history and \<^verbatim>\<open>on_train_end\<close> is not run.
\<close>

theorem empty_training_data_divides_by_zero:
  assumes e: "batches train_data = []" and n: "0 < n"
    and s: "fit_setup train_data valid_data t = (None, t1)"
    and b: "run_hooks (map (\<lambda>cb. on_train_begin cb n) cbs) t1 = (None, t2)"
    and eb: "run_hooks (map (\<lambda>cb. on_epoch_begin cb (last_epoch t2 + 1)) cbs)
               (t2\<lparr>model := (model t2)\<lparr>training := True\<rparr>\<rparr>) = (None, t3)"
  shows "fit_loader E cbs n train_data valid_data t = (Some ZeroDivisionError, t3)"
proof -
  have "epoch_range t2 n = (last_epoch t2 + 1) # [last_epoch t2 + 2..<last_epoch t2 + n + 1]"
    using n by (simp add: epoch_range_def upt_conv_Cons)
  moreover have "fit_epoch E cbs train_data valid_data (last_epoch t2 + 1) t2
                   = (Some ZeroDivisionError, t3)"
    using e eb by (simp add: fit_epoch_def py_div_def)
  ultimately have "fit_try E cbs n train_data valid_data t1 = (Some ZeroDivisionError, t3)"
    using b by (simp add: fit_try_def)
  then show ?thesis using s by (simp add: fit_loader_def)
qed

theorem empty_training_data_divides_by_zero_witness:
  "fst (fit_loader
          \<lparr> mb_size = (\<lambda>b. 1), do_optimize = (\<lambda>b m x. (Inr ((), 1 / 2), params m, x)),
            do_evaluate = (\<lambda>b m. Inr ((), None)), size_average = False \<rparr>
          [Callback] 2 \<lparr> batches = [] :: unit list, dataset_len = 0, batch_size = 10 \<rparr> None
          (DeepNetTrainer_init \<lparr> params = (), training = False \<rparr> None ()))
     = Some ZeroDivisionError"
proof -
  let ?E = "\<lparr> mb_size = (\<lambda>b. 1), do_optimize = (\<lambda>b m x. (Inr ((), 1 / 2), params m, x)),
            do_evaluate = (\<lambda>b m. Inr ((), None)), size_average = False \<rparr>
            :: (unit, unit, unit, unit) env"
  let ?cbs = "[Callback] :: (unit, unit, unit, unit) callback list"
  let ?tr = "\<lparr> batches = [] :: unit list, dataset_len = 0, batch_size = 10 \<rparr>"
  let ?t0 = "DeepNetTrainer_init \<lparr> params = (), training = False \<rparr> None () :: (unit, unit) trainer"
  let ?t1 = "snd (fit_setup ?tr None ?t0)"
  have e: "batches ?tr = []" by simp
  have n: "0 < (2::nat)" by simp
  have s: "fit_setup ?tr None ?t0 = (None, ?t1)"
    by (simp add: fit_setup_def)
  have b: "run_hooks (map (\<lambda>cb. on_train_begin cb 2) ?cbs) ?t1 = (None, ?t1)"
    by (simp add: Callback_def)
  have eb: "run_hooks (map (\<lambda>cb. on_epoch_begin cb (last_epoch ?t1 + 1)) ?cbs)
               (?t1\<lparr>model := (model ?t1)\<lparr>training := True\<rparr>\<rparr>)
            = (None, ?t1\<lparr>model := (model ?t1)\<lparr>training := True\<rparr>\<rparr>)"
    by (simp add: Callback_def)
  show ?thesis
    using empty_training_data_divides_by_zero[OF e n s b eb, of ?E] by simp
qed

text \<open>
  Claim C4.  A fresh trainer with a \<^verbatim>\<open>ReduceLROnPlateau\<close> scheduler is fitted for one
  epoch without validation data: the test \<^verbatim>\<open>self.valid_loss is not None\<close> reads an
  attribute that was never created, \<^verbatim>\<open>AttributeError\<close> is raised, and the scheduler
  has not been stepped.
\<close>

theorem plateau_scheduler_without_validation_raises:
  "fst (fit_loader
          \<lparr> mb_size = (\<lambda>b. 1), do_optimize = (\<lambda>b m x. (Inr ((), 1 / 2), params m, x)),
            do_evaluate = (\<lambda>b m. Inr ((), None)), size_average = False \<rparr>
          [] 1 \<lparr> batches = [()], dataset_len = 1, batch_size = 1 \<rparr> None
          (DeepNetTrainer_init \<lparr> params = (), training = False \<rparr>
             (Some \<lparr> class_name = ''ReduceLROnPlateau'', step_calls = [], last_epoch_attr = - 1 \<rparr>)
             ())) = Some AttributeError
   \<and> map_option step_calls (scheduler (snd (fit_loader
          \<lparr> mb_size = (\<lambda>b. 1), do_optimize = (\<lambda>b m x. (Inr ((), 1 / 2), params m, x)),
            do_evaluate = (\<lambda>b m. Inr ((), None)), size_average = False \<rparr>
          [] 1 \<lparr> batches = [()], dataset_len = 1, batch_size = 1 \<rparr> None
          (DeepNetTrainer_init \<lparr> params = (), training = False \<rparr>
             (Some \<lparr> class_name = ''ReduceLROnPlateau'', step_calls = [], last_epoch_attr = - 1 \<rparr>)
             ())))) = Some []"
  by (simp add: fit_eval)

text \<open>
  With a scheduler attached, and the attribute \<^verbatim>\<open>valid_loss\<close> in place when the
  scheduler is a \<^verbatim>\<open>ReduceLROnPlateau\<close>, the end of an epoch steps the scheduler exactly
  once: with the value of \<^verbatim>\<open>valid_loss\<close> for a \<^verbatim>\<open>ReduceLROnPlateau\<close> whose
  validation loss is not \<^verbatim>\<open>None\<close>, and without argument in every other case.
\<close>

theorem scheduler_stepped_once:
  assumes "scheduler t = Some sch"
    and "class_name sch = ''ReduceLROnPlateau'' \<longrightarrow> valid_loss t = Some vl"
  shows "scheduler_step t =
           (None, t\<lparr>scheduler := Some (sch\<lparr>step_calls := step_calls sch
                        @ [if class_name sch = ''ReduceLROnPlateau'' then vl else None]\<rparr>)\<rparr>)"
  using assms by (cases vl) (simp_all add: scheduler_step_def)

theorem scheduler_stepped_once_witness:
  "(let sch = \<lparr> class_name = ''ReduceLROnPlateau'', step_calls = [], last_epoch_attr = - 1 \<rparr>;
        t = (DeepNetTrainer_init \<lparr> params = (), training = False \<rparr> (Some sch) ())
              \<lparr> valid_loss := Some (Some (1 / 4)) \<rparr>
    in fst (scheduler_step t) = None
       \<and> map_option step_calls (scheduler (snd (scheduler_step t))) = Some [Some (1 / 4)])"
proof -
  let ?sch = "\<lparr> class_name = ''ReduceLROnPlateau'', step_calls = [], last_epoch_attr = - 1 \<rparr>"
  let ?t = "(DeepNetTrainer_init \<lparr> params = (), training = False \<rparr> (Some ?sch) ())
              \<lparr> valid_loss := Some (Some (1 / 4)) \<rparr> :: (unit, unit) trainer"
  have a: "scheduler ?t = Some ?sch" by (simp add: DeepNetTrainer_init_def)
  have b: "class_name ?sch = ''ReduceLROnPlateau'' \<longrightarrow> valid_loss ?t = Some (Some (1 / 4))"
    by simp
  show ?thesis
    using scheduler_stepped_once[OF a b] by (simp add: Let_def)
qed

section \<open>Properties of the learning-rate finder\<close>

lemma load_state_after_save_state:
  "load_state b ((save_state b t)\<lparr>model := m'\<rparr>) =
     (None, (save_state b t)\<lparr>model := m'\<lparr>params := params (model t)\<rparr>, metrics := metrics t,
                              last_epoch := length (train_losses (metrics t))\<rparr>)"
  by (simp add: load_state_def load_trainer_state_def save_state_def save_trainer_state_def)

text \<open>
  Claim C6.  Whatever \<^verbatim>\<open>lr_find\<close> does (an exception before the sweep, a sweep that
  runs to the end, stops early or raises), in the state it leaves the model parameters
  and the metrics are those from before the call.
\<close>

theorem lr_find_restores_state:
  "params (model (snd (lr_find sgd dataloader min_lr max_lr linear' num_it t))) = params (model t)
   \<and> metrics (snd (lr_find sgd dataloader min_lr max_lr linear' num_it t)) = metrics t"
  by (simp add: lr_find_def Let_def load_state_after_save_state split: prod.splits option.splits)

theorem lr_find_restores_state_witness:
  "(let sgd = (\<lambda>lr' b m. (if params m = Suc 0 then Inl (OtherError ''boom'') else Inr 1,
                             Suc (params m)));
        t0 = DeepNetTrainer_init \<lparr> params = 0, training = False \<rparr> None ();
        r = lr_find sgd [(), (), ()] (1 / 10 ^ 7) 10 False None t0
    in fst r = Inl (OtherError ''boom'') \<and> params (model (snd r)) = 0
       \<and> metrics (snd r) = metrics t0)"
proof -
  let ?sgd = "\<lambda>(lr' :: real) (b :: unit) (m :: nat net).
                (if params m = Suc 0 then Inl (OtherError ''boom'') else Inr (1 :: real),
                 Suc (params m))"
  let ?t0 = "DeepNetTrainer_init \<lparr> params = 0, training = False \<rparr> None () :: (nat, unit) trainer"
  have e: "fst (lr_find ?sgd [(), (), ()] (1 / 10 ^ 7) 10 False None ?t0) = Inl (OtherError ''boom'')"
    by (simp add: lr_find_def Let_def load_state_def load_trainer_state_def save_state_def
        save_trainer_state_def DeepNetTrainer_init_def)
  have p: "params (model ?t0) = 0"
    by (simp add: DeepNetTrainer_init_def)
  show ?thesis
    using lr_find_restores_state[of ?sgd "[(), (), ()]" "1 / 10 ^ 7" 10 False None ?t0] e p
    by (simp add: Let_def)
qed

text \<open>
  Claim C3.  With a budget of one batch and a loader of three batches whose losses are
  3, 2 and 1, the sweep records three losses: the budget test sits in the \<^verbatim>\<open>elif\<close>
  branch and is skipped whenever the loss is a new minimum.
\<close>

theorem lr_find_exceeds_batch_budget:
  "map_sum id snd (fst (lr_find (\<lambda>lr' b m. (Inr b, params m)) [3, 2, 1] (1 / 10 ^ 7) 10 False
                          (Some 1)
                          (DeepNetTrainer_init \<lparr> params = (), training = False \<rparr> None ())))
     = Inr [3, 2, 1]"
  by (simp add: lr_find_def Let_def load_state_after_save_state)

end
